theory Spec2Isabelle
  imports Complex_Main
begin

section \<open>Arrays\<close>

text \<open>
  The module \<^verbatim>\<open>tree_time/gtr.py\<close> computes with numpy arrays of floats. The embedding
  uses exact real arithmetic: a one-dimensional array is a list of reals, a two-dimensional
  array is the list of its rows, and \<open>M ! i ! j\<close> is \<^verbatim>\<open>M[i, j]\<close>. Rounding is not
  modelled. A division by zero or a logarithm of a non-positive number is no exception in
  numpy: it gives \<^verbatim>\<open>inf\<close> or \<^verbatim>\<open>nan\<close> and a warning, and the program goes on. In the
  construction of a model such a value always reaches the second check of
  \<^verbatim>\<open>_check_fix_Q\<close>, which then raises; the embedding gives that outcome. Where a query
  would return a non-finite value (the logarithmic forms), the embedding gives the outcome
  \<open>NonFinite\<close>, which stands for that value and is not an exception. Arrays are assumed to have the shapes the
  constructor gives them; numpy's own shape errors are not modelled. A matrix without
  rows carries no column count in this representation (\<open>shape1 [] = 0\<close>), so the
  statements below about whole profiles ask for a non-empty alphabet.

  \<open>tab n k f\<close> is the \<open>n \<times> k\<close> array with the entry \<open>f i j\<close> at \<open>(i, j)\<close>.
\<close>

type_synonym vec = "real list"
type_synonym mat = "real list list"

datatype error =
    AttributeError
  | NotImplementedError
  | ArithmeticError
  | ValueError
  | ZeroDivisionError
  | NameError string
  | UnboundLocalError string
  | LinAlgError
  | NonFinite

definition bind_err :: "error + 'a \<Rightarrow> ('a \<Rightarrow> error + 'b) \<Rightarrow> error + 'b" where
  "bind_err r f = (case r of Inl e \<Rightarrow> Inl e | Inr x \<Rightarrow> f x)"

definition tab :: "nat \<Rightarrow> nat \<Rightarrow> (nat \<Rightarrow> nat \<Rightarrow> real) \<Rightarrow> mat" where
  "tab n k f = map (\<lambda>i. map (\<lambda>j. f i j) [0..<k]) [0..<n]"

definition shape0 :: "'a list \<Rightarrow> nat" where
  "shape0 M = length M"

definition shape1 :: "mat \<Rightarrow> nat" where
  "shape1 M = (case M of [] \<Rightarrow> 0 | r # _ \<Rightarrow> length r)"

definition zeros :: "nat \<Rightarrow> nat \<Rightarrow> mat" where
  "zeros n k = tab n k (\<lambda>i j. 0)"

definition ones :: "nat \<Rightarrow> nat \<Rightarrow> mat" where
  "ones n k = tab n k (\<lambda>i j. 1)"

definition dot :: "mat \<Rightarrow> mat \<Rightarrow> mat" where
  "dot A B = tab (shape0 A) (shape1 B) (\<lambda>i j. \<Sum>k\<leftarrow>[0..<shape0 B]. A ! i ! k * B ! k ! j)"

definition T :: "mat \<Rightarrow> mat" where
  "T M = tab (shape1 M) (shape0 M) (\<lambda>i j. M ! j ! i)"

text \<open>\<^verbatim>\<open>M.sum(0)\<close>, the sums of the columns; \<^verbatim>\<open>M.sum(1)\<close>, the sums of the rows;
  \<^verbatim>\<open>M.sum()\<close>, the sum of all entries.\<close>

definition sum0 :: "mat \<Rightarrow> vec" where
  "sum0 M = map (\<lambda>j. \<Sum>i\<leftarrow>[0..<shape0 M]. M ! i ! j) [0..<shape1 M]"

definition sum1 :: "mat \<Rightarrow> vec" where
  "sum1 M = map sum_list M"

definition sum_all :: "mat \<Rightarrow> real" where
  "sum_all M = sum_list (map sum_list M)"

definition diagonal :: "mat \<Rightarrow> vec" where
  "diagonal M = map (\<lambda>i. M ! i ! i) [0..<min (shape0 M) (shape1 M)]"

text \<open>\<^verbatim>\<open>np.fill_diagonal\<close> with an array of diagonal values, and with one scalar.\<close>

definition fill_diagonal :: "mat \<Rightarrow> vec \<Rightarrow> mat" where
  "fill_diagonal M d = tab (shape0 M) (shape1 M) (\<lambda>i j. if i = j then d ! i else M ! i ! j)"

definition fill_diagonal_scalar :: "mat \<Rightarrow> real \<Rightarrow> mat" where
  "fill_diagonal_scalar M c = tab (shape0 M) (shape1 M) (\<lambda>i j. if i = j then c else M ! i ! j)"

definition diagflat :: "vec \<Rightarrow> mat" where
  "diagflat d = tab (length d) (length d) (\<lambda>i j. if i = j then d ! i else 0)"

text \<open>Broadcasting: \<^verbatim>\<open>M * d\<close> (and \<^verbatim>\<open>d * M\<close>) for a matrix and a vector multiplies
  column \<open>j\<close> by \<open>d ! j\<close>; \<^verbatim>\<open>A * B\<close> and \<^verbatim>\<open>A + B\<close> for two matrices work entry by
  entry; \<^verbatim>\<open>M /= s\<close> divides every entry.\<close>

definition mul_vec :: "mat \<Rightarrow> vec \<Rightarrow> mat" where
  "mul_vec M d = tab (shape0 M) (shape1 M) (\<lambda>i j. M ! i ! j * d ! j)"

definition mul_mat :: "mat \<Rightarrow> mat \<Rightarrow> mat" where
  "mul_mat A B = tab (shape0 A) (shape1 A) (\<lambda>i j. A ! i ! j * B ! i ! j)"

definition add_mat :: "mat \<Rightarrow> mat \<Rightarrow> mat" where
  "add_mat A B = tab (shape0 A) (shape1 A) (\<lambda>i j. A ! i ! j + B ! i ! j)"

definition div_scalar :: "mat \<Rightarrow> real \<Rightarrow> mat" where
  "div_scalar M s = map (map (\<lambda>x. x / s)) M"

text \<open>\<^verbatim>\<open>(xs < 1e-10).sum()\<close>: how many entries are below the tolerance.\<close>

definition count_lt :: "vec \<Rightarrow> real \<Rightarrow> nat" where
  "count_lt xs eps = length (filter (\<lambda>x. x < eps) xs)"

definition eye :: "nat \<Rightarrow> mat" where
  "eye n = tab n n (\<lambda>i j. if i = j then 1 else 0)"

definition is_shape :: "nat \<Rightarrow> nat \<Rightarrow> mat \<Rightarrow> bool" where
  "is_shape n k M = (length M = n \<and> list_all (\<lambda>r. length r = k) M)"

section \<open>The model object\<close>

record GTR =
  alphabet_type :: string
  alphabet :: "string list"
  W :: mat
  Pi :: mat
  mu :: real
  v :: mat
  v_inv :: mat
  eigenmat :: vec
  dm :: "mat option"

text \<open>
  \<^verbatim>\<open>GTR.__init__\<close>. The table \<^verbatim>\<open>alphabets\<close> is imported from \<^verbatim>\<open>seq_utils\<close>, a module
  outside this file, so it is a parameter: a dictionary from an alphabet identifier to
  the array of its symbols.
\<close>

definition init :: "(string \<rightharpoonup> string list) \<Rightarrow> string \<Rightarrow> error + GTR" where
  "init alphabets aty =
     (case alphabets aty of
        None \<Rightarrow> Inl AttributeError
      | Some al \<Rightarrow>
          Inr \<lparr>alphabet_type = aty, alphabet = al,
               W = zeros (shape0 al) (shape0 al),
               Pi = zeros (shape0 al) (shape0 al),
               mu = 1,
               v = zeros (shape0 al) (shape0 al),
               v_inv = zeros (shape0 al) (shape0 al),
               eigenmat = replicate (shape0 al) 0,
               dm = None\<rparr>)"

text \<open>
  \<^verbatim>\<open>GTR._check_fix_Q\<close>. The test of both checks is \<^verbatim>\<open>(Q.sum(0) < 1e-10).sum() < a\<close>:
  a column passes when its sum is below the tolerance, with no absolute value taken.

  The repair divides by \<^verbatim>\<open>Pi.sum()\<close> and by the diagonal of \<^verbatim>\<open>Pi\<close>. When
  \<^verbatim>\<open>Pi.sum()\<close> is zero every entry of \<^verbatim>\<open>Pi\<close> becomes \<^verbatim>\<open>nan\<close> or infinite, and so does
  every entry of \<^verbatim>\<open>Q1\<close>. When entry \<open>j\<close> of the diagonal is zero, \<^verbatim>\<open>Wdiag[j]\<close> is
  \<^verbatim>\<open>nan\<close> or infinite and the product \<^verbatim>\<open>Pi[j, j] * W[j, j] = 0 * Wdiag[j]\<close> in
  \<^verbatim>\<open>Q1[j, j]\<close> is \<^verbatim>\<open>nan\<close>. In both cases a column sum of \<^verbatim>\<open>Q1\<close> is \<^verbatim>\<open>nan\<close>, the
  comparison \<^verbatim>\<open>nan < 1e-10\<close> is false, fewer than \<open>a\<close> columns pass and the second check
  raises \<^verbatim>\<open>ArithmeticError\<close>.
\<close>

definition check_fix_Q :: "GTR \<Rightarrow> error + GTR" where
  "check_fix_Q self =
     (let Q = dot (Pi self) (W self) in
      if count_lt (sum0 Q) (1 / 10 ^ 10) < shape0 (alphabet self) then
        if sum_all (Pi self) = 0 then Inl ArithmeticError
        else
          let Pi1 = div_scalar (Pi self) (sum_all (Pi self));
              W0 = fill_diagonal_scalar (W self) 0;
              d = diagonal Pi1
          in if 0 \<in> set d then Inl ArithmeticError
             else
               let Wdiag = map2 (\<lambda>x y. (- x) / y) (sum0 (T (mul_vec (T W0) d))) d;
                   W1 = fill_diagonal W0 Wdiag;
                   Q1 = dot Pi1 W1
               in if count_lt (sum0 Q1) (1 / 10 ^ 10) < shape0 (alphabet self)
                  then Inl ArithmeticError
                  else Inr (self\<lparr>Pi := Pi1, W := W1\<rparr>)
      else Inr self)"

text \<open>
  \<^verbatim>\<open>GTR._eig\<close>. \<^verbatim>\<open>np.linalg.eig\<close> and \<^verbatim>\<open>np.linalg.inv\<close> are library routines and are
  parameters; either may raise.
\<close>

definition eig ::
  "(mat \<Rightarrow> error + vec \<times> mat) \<Rightarrow> (mat \<Rightarrow> error + mat) \<Rightarrow> GTR \<Rightarrow> error + GTR" where
  "eig linalg_eig linalg_inv self =
     (case linalg_eig (dot (Pi self) (W self)) of
        Inl e \<Rightarrow> Inl e
      | Inr (eigvals, eigvecs) \<Rightarrow>
          (case linalg_inv eigvecs of
             Inl e \<Rightarrow> Inl e
           | Inr vi \<Rightarrow> Inr (self\<lparr>v := eigvecs, v_inv := vi, eigenmat := eigvals\<rparr>)))"

text \<open>
  \<^verbatim>\<open>GTR.standard\<close>. Of the keyword arguments only \<^verbatim>\<open>'alphabet'\<close> and \<^verbatim>\<open>'mu'\<close> are read.
  The two draws of \<^verbatim>\<open>np.random.randint\<close> in the random preset are parameters.

  The first test is \<^verbatim>\<open>'alphabet' in kwargs and alphabet in alphabets.keys()\<close>. The name
  \<^verbatim>\<open>alphabet\<close> is assigned in the body of the function, so it is a local variable, and
  it is read here before any assignment: when the key is present the second operand is
  evaluated and Python raises \<^verbatim>\<open>UnboundLocalError\<close>. When the key is absent the
  conjunction is false without reading it, and the alphabet is \<^verbatim>\<open>'nuc'\<close>. The message
  printed on that branch is not modelled.

  In the random preset \<^verbatim>\<open>Pi /= Pi.sum()\<close> divides the draws by their sum. When all
  draws of a non-empty alphabet are zero every frequency is \<^verbatim>\<open>nan\<close>; both checks of
  \<^verbatim>\<open>_check_fix_Q\<close> then see \<^verbatim>\<open>nan\<close> column sums and the call ends with its
  \<^verbatim>\<open>ArithmeticError\<close>.
\<close>

record kwargs =
  kw_alphabet :: "string option"
  kw_mu :: "real option"

record draws =
  randint_Pi :: "nat list"
  randint_W :: "nat list list"

definition standard ::
  "(string \<rightharpoonup> string list) \<Rightarrow> (mat \<Rightarrow> error + vec \<times> mat) \<Rightarrow> (mat \<Rightarrow> error + mat) \<Rightarrow>
   draws \<Rightarrow> string \<Rightarrow> kwargs \<Rightarrow> error + GTR" where
  "standard alphabets linalg_eig linalg_inv rnd model kw =
     (if kw_alphabet kw \<noteq> None then Inl (UnboundLocalError ''alphabet'')
      else
        let alphabet0 = ''nuc'';
            mu0 = (case kw_mu kw of Some r \<Rightarrow> r | None \<Rightarrow> 1)
        in
        if model = ''Jukes-Cantor'' then
          bind_err (init alphabets ''nuc'') (\<lambda>gtr.
            let gtr1 = gtr\<lparr>mu := mu0\<rparr>;
                a = shape0 (alphabet gtr1);
                gtr2 = gtr1\<lparr>W := ones a a\<rparr>;
                gtr3 = gtr2\<lparr>W := fill_diagonal (W gtr2) (map (\<lambda>s. - (s - 1)) (sum0 (W gtr2)))\<rparr>;
                gtr4 = gtr3\<lparr>Pi := zeros (shape0 (W gtr3)) (shape1 (W gtr3))\<rparr>
            in if a = 0 then Inl ZeroDivisionError
               else
                 bind_err (check_fix_Q (gtr4\<lparr>Pi := fill_diagonal_scalar (Pi gtr4) (1 / real a)\<rparr>))
                   (eig linalg_eig linalg_inv))
        else if model = ''random'' then
          bind_err (init alphabets alphabet0) (\<lambda>gtr.
            let a = shape0 (alphabet gtr);
                gtr1 = gtr\<lparr>mu := mu0\<rparr>;
                Pi0 = map real (randint_Pi rnd)
            in if Pi0 \<noteq> [] \<and> sum_list Pi0 = 0 then Inl ArithmeticError
               else
                 let gtr2 = gtr1\<lparr>Pi := diagflat (map (\<lambda>x. x / sum_list Pi0) Pi0)\<rparr>;
                     W0 = map (map real) (randint_W rnd);
                     gtr3 = gtr2\<lparr>W := add_mat W0 (T W0)\<rparr>
                 in bind_err (check_fix_Q gtr3) (eig linalg_eig linalg_inv))
        else Inl NotImplementedError)"

section \<open>Queries\<close>

text \<open>\<^verbatim>\<open>GTR._exp_lt\<close>.\<close>

definition exp_lt :: "GTR \<Rightarrow> real \<Rightarrow> vec" where
  "exp_lt self t = map (\<lambda>l. exp (mu self * t * l)) (eigenmat self)"

text \<open>
  \<^verbatim>\<open>GTR.prob_t\<close>. A call is a function from the object to the outcome and the object
  after the call; the method assigns to no attribute. \<^verbatim>\<open>ttconf.TINY_NUMBER\<close> comes from
  the module \<^verbatim>\<open>config\<close>, outside this file, and is a parameter.

  In the branch for \<^verbatim>\<open>t < 0\<close> with \<^verbatim>\<open>return_log\<close> the source returns \<^verbatim>\<open>-BIG_NUMBER\<close>.
  The module binds the names \<^verbatim>\<open>np\<close>, \<^verbatim>\<open>sciopt\<close>, \<^verbatim>\<open>ttconf\<close>, \<^verbatim>\<open>alphabets\<close> and \<^verbatim>\<open>GTR\<close>
  only, so reading \<^verbatim>\<open>BIG_NUMBER\<close> raises \<^verbatim>\<open>NameError\<close>.
\<close>

definition clamp0 :: "vec \<Rightarrow> vec" where
  "clamp0 prob = map (\<lambda>x. if x < 0 then 0 else x) prob"

definition prob_t ::
  "real \<Rightarrow> GTR \<Rightarrow> mat \<Rightarrow> mat \<Rightarrow> real \<Rightarrow> bool \<Rightarrow> bool \<Rightarrow> (error + real) \<times> GTR" where
  "prob_t TINY_NUMBER self profile_p profile_ch t rotated return_log =
     (if t < 0 then
        (if return_log then (Inl (NameError ''BIG_NUMBER''), self) else (Inr 0, self))
      else if shape0 profile_p \<noteq> shape0 profile_ch then (Inl ValueError, self)
      else
        let eLambdaT = exp_lt self t;
            p1 = (if \<not> rotated then dot profile_p (v self) else profile_p);
            p2 = (if \<not> rotated then T (dot (v_inv self) (T profile_ch)) else profile_ch);
            prob = clamp0 (sum1 (mul_mat (mul_vec p1 eLambdaT) p2))
        in if return_log then
             (if list_ex (\<lambda>x. x + TINY_NUMBER \<le> 0) prob then (Inl NonFinite, self)
              else (Inr (sum_list (map (\<lambda>x. ln (x + TINY_NUMBER)) prob)), self))
           else (Inr (prod_list prob), self))"

text \<open>
  \<^verbatim>\<open>GTR.optimal_t\<close>. \<^verbatim>\<open>scipy.optimize.minimize_scalar\<close> is a parameter: given the
  objective and the bounds it returns the record \<^verbatim>\<open>opt\<close>, of which \<^verbatim>\<open>opt["x"]\<close> and
  \<^verbatim>\<open>opt["success"]\<close> are read, or passes on an exception of the objective.
  \<^verbatim>\<open>ttconf.MAX_BRANCH_LENGTH\<close> is a parameter.

  The failure branch starts with \<^verbatim>\<open>if verbose > 0:\<close>. No name \<^verbatim>\<open>verbose\<close> is bound in
  the function or in the module, so the branch raises \<^verbatim>\<open>NameError\<close> there, before
  \<^verbatim>\<open>return -1.0\<close>.
\<close>

record opt_result =
  opt_x :: real
  opt_success :: bool

definition neg_prob :: "real \<Rightarrow> GTR \<Rightarrow> mat \<Rightarrow> mat \<Rightarrow> real \<Rightarrow> error + real" where
  "neg_prob TINY_NUMBER self parent child t =
     map_sum id (\<lambda>p. -1 * p) (fst (prob_t TINY_NUMBER self parent child t False True))"

definition optimal_t ::
  "real \<Rightarrow> real \<Rightarrow> ((real \<Rightarrow> error + real) \<Rightarrow> real \<times> real \<Rightarrow> error + opt_result) \<Rightarrow>
   GTR \<Rightarrow> mat \<Rightarrow> mat \<Rightarrow> bool \<Rightarrow> bool \<Rightarrow> (error + real) \<times> GTR" where
  "optimal_t TINY_NUMBER MAX_BRANCH_LENGTH minimize_scalar self profile_p profile_ch rotated return_log =
     (case minimize_scalar (neg_prob TINY_NUMBER self profile_p profile_ch) (0, MAX_BRANCH_LENGTH) of
        Inl e \<Rightarrow> (Inl e, self)
      | Inr opt \<Rightarrow>
          let new_len = opt_x opt
          in if new_len > (9 / 10) * MAX_BRANCH_LENGTH \<or> opt_success opt \<noteq> True
             then (Inl (NameError ''verbose''), self)
             else (Inr new_len, self))"

text \<open>\<^verbatim>\<open>GTR.propagate_profile\<close>. The logarithm is taken entry by entry.\<close>

definition propagate_profile ::
  "GTR \<Rightarrow> mat \<Rightarrow> real \<Rightarrow> bool \<Rightarrow> bool \<Rightarrow> (error + mat) \<times> GTR" where
  "propagate_profile self profile t rotated return_log =
     (let eLambdaT = exp_lt self t;
          p = (if \<not> rotated then T (dot (v_inv self) (T profile)) else profile);
          res = T (dot (v self) (T (mul_vec p eLambdaT)))
      in if \<not> return_log then (Inr res, self)
         else if list_ex (list_ex (\<lambda>x. x \<le> 0)) res then (Inl NonFinite, self)
         else (Inr (map (map ln) res), self))"

section \<open>Profiles and decomposed models\<close>

text \<open>
  A row of a profile is a probability distribution over the alphabet; the row of an
  observed character is one-hot. Both tests are written on the list of the row's entries.
\<close>

definition is_distribution :: "vec \<Rightarrow> bool" where
  "is_distribution r = (list_all (\<lambda>x. 0 \<le> x) r \<and> sum_list r = 1)"

definition one_hot :: "vec \<Rightarrow> bool" where
  "one_hot r = (list_all (\<lambda>x. x = 0 \<or> x = 1) r \<and> sum_list r = 1)"

text \<open>
  What \<open>eig\<close> leaves in the object when the library routines answer in exact arithmetic:
  \<open>v\<close>, \<open>v_inv\<close> and \<open>eigenmat\<close> have the size of the alphabet and \<open>v_inv\<close> is the
  inverse that \<^verbatim>\<open>np.linalg.inv\<close> returned for \<open>v\<close>.
\<close>

definition eigen_ok :: "GTR \<Rightarrow> bool" where
  "eigen_ok self =
     (is_shape (length (alphabet self)) (length (alphabet self)) (v self) \<and>
      is_shape (length (alphabet self)) (length (alphabet self)) (v_inv self) \<and>
      length (eigenmat self) = length (alphabet self) \<and>
      dot (v self) (v_inv self) = eye (length (alphabet self)))"


section \<open>A concrete model\<close>

text \<open>
  The four-letter nucleotide alphabet and the Jukes-Cantor model over it. Its rate matrix
  \<open>Q = J/4 - I\<close> has the eigenvalue \<open>0\<close> once and \<open>-1\<close> three times; half the Hadamard
  matrix of order four is an orthonormal basis of eigenvectors and is its own inverse.
  \<open>eig4\<close> and \<open>inv4\<close> stand for the answers of \<^verbatim>\<open>np.linalg.eig\<close> and
  \<^verbatim>\<open>np.linalg.inv\<close> on this one model.
\<close>

definition nuc4 :: "string \<rightharpoonup> string list" where
  "nuc4 = [''nuc'' \<mapsto> [''A'', ''C'', ''G'', ''T'']]"

definition had :: mat where
  "had = [[1/2, 1/2, 1/2, 1/2], [1/2, 1/2, -1/2, -1/2],
          [1/2, -1/2, 1/2, -1/2], [1/2, -1/2, -1/2, 1/2]]"

definition eig4 :: "mat \<Rightarrow> error + vec \<times> mat" where
  "eig4 Q = Inr ([0, -1, -1, -1], had)"

definition inv4 :: "mat \<Rightarrow> error + mat" where
  "inv4 M = Inr had"

definition rnd0 :: draws where
  "rnd0 = \<lparr>randint_Pi = [], randint_W = []\<rparr>"

definition kw0 :: kwargs where
  "kw0 = \<lparr>kw_alphabet = None, kw_mu = None\<rparr>"

definition jc4 :: GTR where
  "jc4 = \<lparr>alphabet_type = ''nuc'', alphabet = [''A'', ''C'', ''G'', ''T''],
          W = [[-3, 1, 1, 1], [1, -3, 1, 1], [1, 1, -3, 1], [1, 1, 1, -3]],
          Pi = [[1/4, 0, 0, 0], [0, 1/4, 0, 0], [0, 0, 1/4, 0], [0, 0, 0, 1/4]],
          mu = 1, v = had, v_inv = had, eigenmat = [0, -1, -1, -1], dm = None\<rparr>"

text \<open>
  The object after \<^verbatim>\<open>GTR('nuc')\<close> and the assignment of a uniform equilibrium and of
  an exchangeability matrix whose diagonal is \<open>-7\<close> where \<open>-3\<close> would balance the columns.
\<close>

definition steep4 :: GTR where
  "steep4 = \<lparr>alphabet_type = ''nuc'', alphabet = [''A'', ''C'', ''G'', ''T''],
          W = [[-7, 1, 1, 1], [1, -7, 1, 1], [1, 1, -7, 1], [1, 1, 1, -7]],
          Pi = [[1/4, 0, 0, 0], [0, 1/4, 0, 0], [0, 0, 1/4, 0], [0, 0, 0, 1/4]],
          mu = 1, v = zeros 4 4, v_inv = zeros 4 4, eigenmat = replicate 4 0, dm = None\<rparr>"

text \<open>An optimizer that reports the upper bound of the search interval as its optimum.\<close>

definition at_upper_bound :: "(real \<Rightarrow> error + real) \<Rightarrow> real \<times> real \<Rightarrow> error + opt_result" where
  "at_upper_bound f b = Inr \<lparr>opt_x = snd b, opt_success = True\<rparr>"

section \<open>Facts about arrays\<close>

lemma length_tab: "length (tab n k f) = n"
  by (simp add: tab_def)

lemma tab_row: "i < n \<Longrightarrow> tab n k f ! i = map (f i) [0..<k]"
  by (simp add: tab_def)

lemma tab_nth: "i < n \<Longrightarrow> j < k \<Longrightarrow> tab n k f ! i ! j = f i j"
  by (simp add: tab_def)

lemma shape0_tab: "shape0 (tab n k f) = n"
  by (simp add: shape0_def tab_def)

lemma shape1_tab: "0 < n \<Longrightarrow> shape1 (tab n k f) = k"
  by (cases n) (simp_all add: shape1_def tab_def upt_conv_Cons del: upt_Suc)

lemma tab_cong: "(\<And>i j. i < n \<Longrightarrow> j < k \<Longrightarrow> f i j = g i j) \<Longrightarrow> tab n k f = tab n k g"
  by (simp add: tab_def)

lemma is_shape_tab: "is_shape n k (tab n k f)"
  by (simp add: is_shape_def tab_def list_all_iff)

lemma is_shape_row: "is_shape n k M \<Longrightarrow> i < n \<Longrightarrow> length (M ! i) = k"
  by (simp add: is_shape_def list_all_length)

lemma mat_as_tab: "is_shape n k M \<Longrightarrow> M = tab n k (\<lambda>i j. M ! i ! j)"
proof (rule nth_equalityI)
  assume s: "is_shape n k M"
  show "length M = length (tab n k (\<lambda>i j. M ! i ! j))"
    using s by (simp add: is_shape_def tab_def)
  fix i assume "i < length M"
  with s have i: "i < n" and l: "length (M ! i) = k"
    by (simp_all add: is_shape_def list_all_length)
  show "M ! i = tab n k (\<lambda>i j. M ! i ! j) ! i"
    using i l by (simp add: tab_row list_eq_iff_nth_eq)
qed

lemma sum_list_upt_sum: "(\<Sum>k\<leftarrow>[0..<n]. f k) = (\<Sum>k<n. f k)" for f :: "nat \<Rightarrow> real"
  by (simp add: interv_sum_list_conv_sum_set_nat atLeast0LessThan)

lemma T_tab: "0 < n \<Longrightarrow> T (tab n k f) = tab k n (\<lambda>i j. f j i)"
  unfolding T_def shape0_tab
  by (simp add: shape1_tab) (rule tab_cong, simp add: tab_nth)

lemma dot_tab:
  "0 < m \<Longrightarrow> dot (tab n m f) (tab m k g) = tab n k (\<lambda>i j. \<Sum>l<m. f i l * g l j)"
  unfolding dot_def shape0_tab
  by (simp add: shape1_tab sum_list_upt_sum) (rule tab_cong, simp add: tab_nth)

lemma mul_vec_tab:
  "0 < n \<Longrightarrow> mul_vec (tab n k f) d = tab n k (\<lambda>i j. f i j * d ! j)"
  unfolding mul_vec_def shape0_tab
  by (simp add: shape1_tab) (rule tab_cong, simp add: tab_nth)

lemma mul_mat_tab:
  "0 < n \<Longrightarrow> mul_mat (tab n k f) (tab n k g) = tab n k (\<lambda>i j. f i j * g i j)"
  unfolding mul_mat_def shape0_tab
  by (simp add: shape1_tab) (rule tab_cong, simp add: tab_nth)

lemma sum1_tab: "sum1 (tab n k f) = map (\<lambda>i. \<Sum>j<k. f i j) [0..<n]"
  by (simp add: sum1_def tab_def sum_list_upt_sum comp_def)

lemma sum0_tab: "0 < n \<Longrightarrow> sum0 (tab n k f) = map (\<lambda>j. \<Sum>i<n. f i j) [0..<k]"
  unfolding sum0_def shape0_tab
  by (simp add: shape1_tab sum_list_upt_sum tab_nth)

subsection \<open>Rotation into the eigenbasis and back\<close>

lemma eye_nth: "i < n \<Longrightarrow> j < n \<Longrightarrow> eye n ! i ! j = (if i = j then 1 else 0)"
  by (simp add: eye_def tab_nth)

lemma dot_nth:
  assumes "is_shape n m A" "is_shape m k B" "0 < m" "i < n" "j < k"
  shows "dot A B ! i ! j = (\<Sum>l<m. A ! i ! l * B ! l ! j)"
proof -
  have "dot A B = dot (tab n m (\<lambda>i j. A ! i ! j)) (tab m k (\<lambda>i j. B ! i ! j))"
    using mat_as_tab [OF assms(1)] mat_as_tab [OF assms(2)] by simp
  then show ?thesis using assms by (simp add: dot_tab tab_nth)
qed

lemma rotate_back:
  fixes P :: "nat \<Rightarrow> nat \<Rightarrow> real"
  assumes inv: "\<And>i j. i < a \<Longrightarrow> j < a \<Longrightarrow> (\<Sum>k<a. V i k * U k j) = (if i = j then 1 else 0)"
    and i: "i < a"
  shows "(\<Sum>k<a. V i k * (\<Sum>j<a. U k j * P l j)) = P l i"
proof -
  have "(\<Sum>k<a. V i k * (\<Sum>j<a. U k j * P l j)) = (\<Sum>k<a. \<Sum>j<a. V i k * U k j * P l j)"
    by (simp add: sum_distrib_left mult.assoc)
  also have "\<dots> = (\<Sum>j<a. \<Sum>k<a. V i k * U k j * P l j)"
    by (rule sum.swap)
  also have "\<dots> = (\<Sum>j<a. (\<Sum>k<a. V i k * U k j) * P l j)"
    by (simp add: sum_distrib_right)
  also have "\<dots> = (\<Sum>j<a. (if i = j then 1 else 0) * P l j)"
    using inv i by simp
  also have "\<dots> = P l i"
    using i by (simp add: if_distrib [of "\<lambda>x. x * _"] sum.delta cong: if_cong)
  finally show ?thesis .
qed

lemma exp_lt_zero: "i < length (eigenmat self) \<Longrightarrow> exp_lt self 0 ! i = 1"
  by (simp add: exp_lt_def)

lemma propagate_zero_aux:
  assumes p: "is_shape L a profile" and vs: "is_shape a a (v self)" and vi: "is_shape a a (v_inv self)"
    and e: "length (eigenmat self) = a" and a: "0 < a" and L: "0 < L"
    and inv: "dot (v self) (v_inv self) = eye a"
  shows "T (dot (v self) (T (mul_vec (T (dot (v_inv self) (T profile))) (exp_lt self 0)))) = profile"
proof -
  let ?P = "\<lambda>i j. profile ! i ! j"
  let ?V = "\<lambda>i j. v self ! i ! j"
  let ?U = "\<lambda>i j. v_inv self ! i ! j"
  have P: "profile = tab L a ?P" by (rule mat_as_tab [OF p])
  have V: "v self = tab a a ?V" by (rule mat_as_tab [OF vs])
  have U: "v_inv self = tab a a ?U" by (rule mat_as_tab [OF vi])
  have inv': "(\<Sum>k<a. ?V i k * ?U k j) = (if i = j then 1 else 0)" if "i < a" "j < a" for i j
    using dot_nth [OF vs vi a that] that by (simp add: inv eye_nth)
  have 1: "T profile = tab a L (\<lambda>i j. ?P j i)"
    by (subst P) (simp add: T_tab L)
  have 2: "dot (v_inv self) (T profile) = tab a L (\<lambda>i j. \<Sum>l<a. ?U i l * ?P j l)"
    by (subst U) (simp add: 1 dot_tab a)
  have 3: "T (dot (v_inv self) (T profile)) = tab L a (\<lambda>l i. \<Sum>j<a. ?U i j * ?P l j)"
    by (simp add: 2 T_tab a)
  have 4: "mul_vec (T (dot (v_inv self) (T profile))) (exp_lt self 0)
      = tab L a (\<lambda>l i. \<Sum>j<a. ?U i j * ?P l j)"
    unfolding 3 by (simp add: mul_vec_tab L) (rule tab_cong, simp add: exp_lt_zero e)
  have 5: "T (mul_vec (T (dot (v_inv self) (T profile))) (exp_lt self 0))
      = tab a L (\<lambda>i l. \<Sum>j<a. ?U i j * ?P l j)"
    by (simp add: 4 T_tab L)
  have 6: "dot (v self) (T (mul_vec (T (dot (v_inv self) (T profile))) (exp_lt self 0)))
      = tab a L (\<lambda>i l. \<Sum>k<a. ?V i k * (\<Sum>j<a. ?U k j * ?P l j))"
    by (subst V) (simp add: 5 dot_tab a)
  have "T (dot (v self) (T (mul_vec (T (dot (v_inv self) (T profile))) (exp_lt self 0))))
      = tab L a (\<lambda>l i. \<Sum>k<a. ?V i k * (\<Sum>j<a. ?U k j * ?P l j))"
    by (simp add: 6 T_tab a)
  also have "\<dots> = tab L a ?P"
    by (rule tab_cong) (rule rotate_back, rule inv')
  finally show ?thesis using P by simp
qed

subsection \<open>The Jukes-Cantor matrices\<close>








lemma eig_keeps:
  "eig linalg_eig linalg_inv self = Inr g \<Longrightarrow>
   alphabet g = alphabet self \<and> W g = W self \<and> Pi g = Pi self \<and> mu g = mu self"
  by (auto simp add: eig_def split: sum.splits prod.splits)


subsection \<open>The value of a site at zero time\<close>

lemma rotate_pair:
  fixes P C :: "nat \<Rightarrow> real"
  assumes inv: "\<And>i j. i < a \<Longrightarrow> j < a \<Longrightarrow> (\<Sum>k<a. V i k * U k j) = (if i = j then 1 else 0)"
  shows "(\<Sum>i<a. (\<Sum>k<a. P k * V k i) * (\<Sum>j<a. U i j * C j)) = (\<Sum>k<a. P k * C k)"
proof -
  have "(\<Sum>i<a. (\<Sum>k<a. P k * V k i) * (\<Sum>j<a. U i j * C j))
      = (\<Sum>i<a. \<Sum>k<a. P k * (V k i * (\<Sum>j<a. U i j * C j)))"
    by (simp add: sum_distrib_right mult.assoc)
  also have "\<dots> = (\<Sum>k<a. \<Sum>i<a. P k * (V k i * (\<Sum>j<a. U i j * C j)))"
    by (rule sum.swap)
  also have "\<dots> = (\<Sum>k<a. P k * (\<Sum>i<a. V k i * (\<Sum>j<a. U i j * C j)))"
    by (simp add: sum_distrib_left)
  also have "\<dots> = (\<Sum>k<a. P k * C k)"
    using rotate_back [where V = V and U = U and P = "\<lambda>l. C" and a = a, OF inv]
    by simp
  finally show ?thesis .
qed

lemma prob_zero_sites:
  assumes p: "is_shape L a profile_p" and c: "is_shape L a profile_ch"
    and vs: "is_shape a a (v self)" and vi: "is_shape a a (v_inv self)"
    and e: "length (eigenmat self) = a" and a: "0 < a" and L: "0 < L"
    and inv: "dot (v self) (v_inv self) = eye a"
  shows "sum1 (mul_mat (mul_vec (dot profile_p (v self)) (exp_lt self 0))
                       (T (dot (v_inv self) (T profile_ch))))
       = map (\<lambda>l. \<Sum>k<a. profile_p ! l ! k * profile_ch ! l ! k) [0..<L]"
proof -
  let ?P = "\<lambda>i j. profile_p ! i ! j"
  let ?C = "\<lambda>i j. profile_ch ! i ! j"
  let ?V = "\<lambda>i j. v self ! i ! j"
  let ?U = "\<lambda>i j. v_inv self ! i ! j"
  have P: "profile_p = tab L a ?P" by (rule mat_as_tab [OF p])
  have C: "profile_ch = tab L a ?C" by (rule mat_as_tab [OF c])
  have V: "v self = tab a a ?V" by (rule mat_as_tab [OF vs])
  have U: "v_inv self = tab a a ?U" by (rule mat_as_tab [OF vi])
  have inv': "(\<Sum>k<a. ?V i k * ?U k j) = (if i = j then 1 else 0)" if "i < a" "j < a" for i j
    using dot_nth [OF vs vi a that] that by (simp add: inv eye_nth)
  have 1: "dot profile_p (v self) = tab L a (\<lambda>l i. \<Sum>k<a. ?P l k * ?V k i)"
    by (subst P, subst V) (simp add: dot_tab a)
  have 2: "mul_vec (dot profile_p (v self)) (exp_lt self 0) = tab L a (\<lambda>l i. \<Sum>k<a. ?P l k * ?V k i)"
    unfolding 1 by (simp add: mul_vec_tab L) (rule tab_cong, simp add: exp_lt_zero e)
  have 3: "T profile_ch = tab a L (\<lambda>i j. ?C j i)"
    by (subst C) (simp add: T_tab L)
  have 4: "dot (v_inv self) (T profile_ch) = tab a L (\<lambda>i j. \<Sum>l<a. ?U i l * ?C j l)"
    by (subst U) (simp add: 3 dot_tab a)
  have 5: "T (dot (v_inv self) (T profile_ch)) = tab L a (\<lambda>l i. \<Sum>j<a. ?U i j * ?C l j)"
    by (simp add: 4 T_tab a)
  have "sum1 (mul_mat (mul_vec (dot profile_p (v self)) (exp_lt self 0))
                       (T (dot (v_inv self) (T profile_ch))))
      = map (\<lambda>l. \<Sum>i<a. (\<Sum>k<a. ?P l k * ?V k i) * (\<Sum>j<a. ?U i j * ?C l j)) [0..<L]"
    by (simp add: 2 5 mul_mat_tab L sum1_tab)
  also have "\<dots> = map (\<lambda>l. \<Sum>k<a. ?P l k * ?C l k) [0..<L]"
    using rotate_pair [where V = ?V and U = ?U and a = a, OF inv'] by simp
  finally show ?thesis .
qed

lemma squares_one_hot:
  "one_hot r \<Longrightarrow> (\<Sum>k<length r. r ! k * r ! k) = 1"
proof -
  assume h: "one_hot r"
  have "(\<Sum>k<length r. r ! k * r ! k) = (\<Sum>k<length r. r ! k)"
    using h by (intro sum.cong refl) (auto simp add: one_hot_def list_all_length)
  also have "\<dots> = sum_list r"
    by (simp add: sum_list_sum_nth atLeast0LessThan)
  finally show ?thesis using h by (simp add: one_hot_def)
qed

lemma prod_list_ones: "prod_list (map (\<lambda>x. 1::real) xs) = 1"
  by (induction xs) simp_all

lemma prob_empty:
  "prob_t tiny self [] [] 0 False False = (Inr 1, self)"
  by (simp add: prob_t_def Let_def dot_def T_def tab_def shape0_def shape1_def mul_vec_def mul_mat_def
      sum1_def clamp0_def)

lemma propagate_empty:
  "0 < length (v self) \<Longrightarrow> 0 < length (v_inv self) \<Longrightarrow>
   T (dot (v self) (T (mul_vec (T (dot (v_inv self) (T []))) (exp_lt self 0)))) = []"
  by (simp add: dot_def T_def shape0_def shape1_tab mul_vec_def) (simp add: shape1_def tab_def)

subsection \<open>The concrete model\<close>

lemma upt4: "[0..<4] = [0, 1, 2, 3]"
  by (simp add: upt_conv_Cons del: upt_Suc)

lemma jc4_constructed: "standard nuc4 eig4 inv4 rnd0 ''Jukes-Cantor'' kw0 = Inr jc4"
  by (simp add: standard_def init_def nuc4_def kw0_def bind_err_def check_fix_Q_def eig_def
      eig4_def inv4_def jc4_def dot_def tab_def shape0_def shape1_def upt4 ones_def zeros_def
      fill_diagonal_def fill_diagonal_scalar_def sum0_def count_lt_def Let_def)

lemma jc4_decomposition:
  "dot had (dot (diagflat [0, -1, -1, -1]) had) = dot (Pi jc4) (W jc4) \<and> dot had had = eye 4"
  by (simp add: jc4_def had_def dot_def diagflat_def eye_def tab_def shape0_def shape1_def upt4)

lemma jc4_eigen_ok: "eigen_ok jc4"
  by (simp add: eigen_ok_def jc4_def had_def is_shape_def dot_def eye_def tab_def shape0_def
      shape1_def upt4)

lemma eig_inverse:
  "eig linalg_eig linalg_inv self = Inr g \<Longrightarrow> linalg_inv (v g) = Inr (v_inv g)"
  by (auto simp add: eig_def split: sum.splits prod.splits)

section \<open>Negative time and mismatched profiles\<close>

text \<open>
  C5. For every \<open>t \<ge> 0\<close>, a call of \<open>prob_t\<close> with a parent and a child profile that have
  different numbers of rows raises the \<^verbatim>\<open>ValueError\<close> for mismatched sequence lengths
  (the specification's DimensionMismatchError), and the object is the same after the call.
\<close>

theorem prob_t_length_mismatch:
  "0 \<le> t \<Longrightarrow> shape0 profile_p \<noteq> shape0 profile_ch \<Longrightarrow>
   prob_t tiny self profile_p profile_ch t rotated return_log = (Inl ValueError, self)"
  by (simp add: prob_t_def)

text \<open>C5 at \<open>t = 1\<close>, a parent of one site and a child of none.\<close>

theorem prob_t_length_mismatch_witness:
  "(0::real) \<le> 1 \<and> shape0 [[1, 0, 0, 0::real]] \<noteq> shape0 ([]::mat) \<and>
   prob_t (1 / 10 ^ 12) jc4 [[1, 0, 0, 0]] [] 1 False False = (Inl ValueError, jc4)"
  using prob_t_length_mismatch [where t = 1 and profile_p = "[[1, 0, 0, 0]]" and profile_ch = "[]"
      and tiny = "1 / 10 ^ 12" and self = jc4 and rotated = False and return_log = False]
  by (simp add: shape0_def)

text \<open>
  C10. The test \<open>t < 0\<close> comes before the comparison of the site counts, so for every
  \<open>t < 0\<close> and every pair of profiles, whatever their numbers of rows, the outcome is
  that of the first branch. In the plain form that is the value \<open>0\<close>. In the logarithmic
  form the branch does not return: it reads the unbound name \<^verbatim>\<open>BIG_NUMBER\<close> and the
  call ends with a \<^verbatim>\<open>NameError\<close>.
\<close>

theorem prob_t_negative_before_lengths:
  "t < 0 \<Longrightarrow>
   prob_t tiny self profile_p profile_ch t rotated return_log =
     (if return_log then Inl (NameError ''BIG_NUMBER'') else Inr 0, self)"
  by (simp add: prob_t_def)

text \<open>C10 at \<open>t = -1\<close> in the logarithmic form, with profiles of one and of no site.\<close>

theorem prob_t_negative_before_lengths_witness:
  "(-1::real) < 0 \<and> shape0 [[1, 0, 0, 0::real]] \<noteq> shape0 ([]::mat) \<and>
   prob_t (1 / 10 ^ 12) jc4 [[1, 0, 0, 0]] [] (-1) False True
     = (Inl (NameError ''BIG_NUMBER''), jc4)"
  using prob_t_negative_before_lengths [where t = "-1" and profile_p = "[[1, 0, 0, 0]]"
      and profile_ch = "[]" and tiny = "1 / 10 ^ 12" and self = jc4 and rotated = False
      and return_log = True]
  by (simp add: shape0_def)

text \<open>
  C4. For \<open>t < 0\<close> the plain form returns \<open>0\<close>. The logarithmic form does not
  return a large negative value: the branch reads the unbound name \<^verbatim>\<open>BIG_NUMBER\<close> and
  the call ends with a \<^verbatim>\<open>NameError\<close>.
\<close>

theorem prob_t_negative_log_raises:
  "t < 0 \<Longrightarrow>
   prob_t tiny self profile_p profile_ch t rotated True = (Inl (NameError ''BIG_NUMBER''), self)"
  by (simp add: prob_t_def)

text \<open>C4 at \<open>t = -1\<close> for one-site profiles of the concrete model.\<close>

theorem prob_t_negative_log_raises_witness:
  "(-1::real) < 0 \<and>
   prob_t (1 / 10 ^ 12) jc4 [[1, 0, 0, 0]] [[1, 0, 0, 0]] (-1) False True
     = (Inl (NameError ''BIG_NUMBER''), jc4)"
  using prob_t_negative_log_raises [where t = "-1" and profile_p = "[[1, 0, 0, 0]]"
      and profile_ch = "[[1, 0, 0, 0]]" and tiny = "1 / 10 ^ 12" and self = jc4 and rotated = False]
  by simp

section \<open>Branch-length optimization\<close>

lemma optimal_t_success:
  "minimize_scalar (neg_prob tiny self profile_p profile_ch) (0, maxbl) = Inr opt \<Longrightarrow>
   opt_x opt \<le> 9 / 10 * maxbl \<Longrightarrow> opt_success opt \<Longrightarrow>
   optimal_t tiny maxbl minimize_scalar self profile_p profile_ch rotated return_log
     = (Inr (opt_x opt), self)"
  by (simp add: optimal_t_def Let_def)

text \<open>
  C3. When the optimizer reports no success, or an optimum above nine tenths of the
  maximal branch length, \<open>optimal_t\<close> does not return \<open>-1.0\<close>: the failure branch reads
  the unbound name \<^verbatim>\<open>verbose\<close> first and the call ends with a \<^verbatim>\<open>NameError\<close>.
  (Otherwise it returns the optimizer's point, \<open>optimal_t_success\<close>.)
\<close>

theorem optimal_t_failure_raises:
  "minimize_scalar (neg_prob tiny self profile_p profile_ch) (0, maxbl) = Inr opt \<Longrightarrow>
   opt_x opt > 9 / 10 * maxbl \<or> \<not> opt_success opt \<Longrightarrow>
   optimal_t tiny maxbl minimize_scalar self profile_p profile_ch rotated return_log
     = (Inl (NameError ''verbose''), self)"
  by (auto simp add: optimal_t_def Let_def)

text \<open>C3 for an optimizer that answers with the upper bound \<open>4\<close> of the interval.\<close>

theorem optimal_t_failure_raises_witness:
  "at_upper_bound (neg_prob (1 / 10 ^ 12) jc4 [[1, 0, 0, 0]] [[0, 1, 0, 0]]) (0, 4)
     = Inr \<lparr>opt_x = 4, opt_success = True\<rparr> \<and>
   (opt_x \<lparr>opt_x = 4, opt_success = True\<rparr> > 9 / 10 * 4 \<or>
    \<not> opt_success \<lparr>opt_x = 4, opt_success = True\<rparr>) \<and>
   optimal_t (1 / 10 ^ 12) 4 at_upper_bound jc4 [[1, 0, 0, 0]] [[0, 1, 0, 0]] False False
     = (Inl (NameError ''verbose''), jc4)"
  using optimal_t_failure_raises [where minimize_scalar = at_upper_bound and tiny = "1 / 10 ^ 12"
      and self = jc4 and profile_p = "[[1, 0, 0, 0]]" and profile_ch = "[[0, 1, 0, 0]]"
      and maxbl = 4 and opt = "\<lparr>opt_x = 4, opt_success = True\<rparr>" and rotated = False
      and return_log = False]
  by (simp add: at_upper_bound_def)

section \<open>Construction\<close>

lemma init_unknown_alphabet: "alphabets aty = None \<Longrightarrow> init alphabets aty = Inl AttributeError"
  by (simp add: init_def)

lemma check_fix_Q_keeps:
  "check_fix_Q self = Inr g \<Longrightarrow> alphabet g = alphabet self \<and> mu g = mu self"
  by (auto simp add: check_fix_Q_def Let_def split: if_splits)

lemma standard_mu:
  assumes "standard alphabets linalg_eig linalg_inv rnd model kw = Inr g"
  shows "mu g = (case kw_mu kw of Some r \<Rightarrow> r | None \<Rightarrow> 1)"
proof -
  from assms have k: "kw_alphabet kw = None"
    by (auto simp add: standard_def split: if_splits)
  consider "model = ''Jukes-Cantor''" | "model \<noteq> ''Jukes-Cantor''" "model = ''random''"
    | "model \<noteq> ''Jukes-Cantor''" "model \<noteq> ''random''" by blast
  then show ?thesis
  proof cases
    case 1
    with assms k show ?thesis
      by (auto simp add: standard_def init_def bind_err_def Let_def
          split: option.splits if_splits sum.splits
          dest!: eig_keeps check_fix_Q_keeps)
  next
    case 2
    with assms k show ?thesis
      by (auto simp add: standard_def init_def bind_err_def Let_def
          split: option.splits if_splits sum.splits
          dest!: eig_keeps check_fix_Q_keeps)
  next
    case 3
    with assms k show ?thesis by (simp add: standard_def)
  qed
qed

text \<open>
  C6. A model over an unknown alphabet identifier is refused by \<open>init\<close> with
  \<^verbatim>\<open>AttributeError\<close> (\<open>init_unknown_alphabet\<close>). A preset name other than the two known
  ones is refused by \<open>standard\<close> with \<^verbatim>\<open>NotImplementedError\<close> only when no alphabet
  option is given; with the option the call ends earlier, with \<^verbatim>\<open>UnboundLocalError\<close>.
\<close>

theorem standard_unknown_preset:
  "model \<noteq> ''Jukes-Cantor'' \<Longrightarrow> model \<noteq> ''random'' \<Longrightarrow>
   standard alphabets linalg_eig linalg_inv rnd model kw =
     Inl (if kw_alphabet kw = None then NotImplementedError else UnboundLocalError ''alphabet'')"
  by (simp add: standard_def)

text \<open>C6 for the preset name \<open>bogus\<close> together with the alphabet option \<open>nuc\<close>.\<close>

theorem standard_unknown_preset_witness:
  "''bogus'' \<noteq> ''Jukes-Cantor'' \<and> ''bogus'' \<noteq> ''random'' \<and>
   standard nuc4 eig4 inv4 rnd0 ''bogus'' \<lparr>kw_alphabet = Some ''nuc'', kw_mu = None\<rparr>
     = Inl (UnboundLocalError ''alphabet'')"
  using standard_unknown_preset [where model = "''bogus''" and alphabets = nuc4
      and linalg_eig = eig4 and linalg_inv = inv4 and rnd = rnd0
      and kw = "\<lparr>kw_alphabet = Some ''nuc'', kw_mu = None\<rparr>"]
  by simp

text \<open>
  C7. Every call of \<open>standard\<close> that supplies an alphabet option, known or not, ends with
  \<^verbatim>\<open>UnboundLocalError\<close> and builds no model. (The rate option is stored as \<open>mu\<close> in
  every model that is returned, \<open>standard_mu\<close>.)
\<close>

theorem standard_alphabet_option_raises:
  "kw_alphabet kw = Some x \<Longrightarrow>
   standard alphabets linalg_eig linalg_inv rnd model kw = Inl (UnboundLocalError ''alphabet'')"
  by (simp add: standard_def)

text \<open>C7 for the known identifier \<open>nuc\<close> and the rate \<open>2\<close>.\<close>

theorem standard_alphabet_option_raises_witness:
  "nuc4 ''nuc'' \<noteq> None \<and>
   kw_alphabet \<lparr>kw_alphabet = Some ''nuc'', kw_mu = Some 2\<rparr> = Some ''nuc'' \<and>
   standard nuc4 eig4 inv4 rnd0 ''random'' \<lparr>kw_alphabet = Some ''nuc'', kw_mu = Some 2\<rparr>
     = Inl (UnboundLocalError ''alphabet'')"
  using standard_alphabet_option_raises [where kw = "\<lparr>kw_alphabet = Some ''nuc'', kw_mu = Some 2\<rparr>"
      and x = "''nuc''" and alphabets = nuc4 and linalg_eig = eig4 and linalg_inv = inv4
      and rnd = rnd0 and model = "''random''"]
  by (simp add: nuc4_def)



section \<open>Validation and repair of the rate matrix\<close>

lemma length_sum0: "length (sum0 M) = shape1 M"
  by (simp add: sum0_def)

lemma shape1_dot: "0 < length A \<Longrightarrow> shape1 (dot A B) = shape1 B"
  by (simp add: dot_def shape0_def shape1_tab)

lemma is_shape_shape1: "is_shape n k M \<Longrightarrow> 0 < n \<Longrightarrow> shape1 M = k"
  by (cases M) (simp_all add: is_shape_def shape1_def)

lemma count_lt_all: "length xs \<le> count_lt xs eps \<Longrightarrow> x \<in> set xs \<Longrightarrow> x < eps"
  unfolding count_lt_def using length_filter_less [of x xs "\<lambda>x. x < eps"] by force

text \<open>
  What a successful \<open>check_fix_Q\<close> guarantees: every column sum of \<open>Pi \<cdot> W\<close> is below
  the tolerance. Nothing bounds it from below.
\<close>

lemma check_fix_Q_upper:
  assumes ok: "check_fix_Q self = Inr g"
    and P: "is_shape (length (alphabet self)) (length (alphabet self)) (Pi self)"
    and Ws: "is_shape (length (alphabet self)) (length (alphabet self)) (W self)"
    and s: "s \<in> set (sum0 (dot (Pi g) (W g)))"
  shows "s < 1 / 10 ^ 10"
proof (cases "alphabet self = []")
  case True
  with P Ws ok have "g = self" "Pi self = []"
    by (auto simp add: check_fix_Q_def Let_def shape0_def is_shape_def split: if_splits)
  with s show ?thesis by (simp add: dot_def sum0_def shape0_def shape1_def tab_def)
next
  case False
  let ?a = "length (alphabet self)"
  from False have a: "0 < ?a" by simp
  have lP: "length (Pi self) = ?a" and w1: "shape1 (W self) = ?a" and lW: "length (W self) = ?a"
    using P Ws a by (simp_all add: is_shape_def is_shape_shape1)
  have "length (sum0 (dot (Pi g) (W g))) \<le> count_lt (sum0 (dot (Pi g) (W g))) (1 / 10 ^ 10)"
    using ok a lP w1 lW
    by (auto simp add: check_fix_Q_def Let_def shape0_def length_sum0 shape1_dot div_scalar_def
        fill_diagonal_def fill_diagonal_scalar_def shape1_tab length_tab split: if_splits)
  then show ?thesis using s by (rule count_lt_all)
qed

lemma sum_all_tab: "sum_all (tab n k f) = (\<Sum>i<n. \<Sum>j<k. f i j)"
  by (simp add: sum_all_def tab_def comp_def sum_list_upt_sum)

lemma div_scalar_tab: "div_scalar (tab n k f) s = tab n k (\<lambda>i j. f i j / s)"
  by (simp add: div_scalar_def tab_def)

lemma diagonal_tab: "0 < n \<Longrightarrow> diagonal (tab n n f) = map (\<lambda>i. f i i) [0..<n]"
  by (simp add: diagonal_def shape0_tab shape1_tab tab_nth)

lemma fill_diagonal_scalar_tab:
  "0 < n \<Longrightarrow> fill_diagonal_scalar (tab n k f) c = tab n k (\<lambda>i j. if i = j then c else f i j)"
  unfolding fill_diagonal_scalar_def shape0_tab
  by (simp add: shape1_tab) (rule tab_cong, simp add: tab_nth)

lemma fill_diagonal_tab:
  "0 < n \<Longrightarrow> fill_diagonal (tab n k f) d = tab n k (\<lambda>i j. if i = j then d ! i else f i j)"
  unfolding fill_diagonal_def shape0_tab
  by (simp add: shape1_tab) (rule tab_cong, simp add: tab_nth)

lemma sum_split_diag:
  fixes f :: "nat \<Rightarrow> real"
  assumes "j < a"
  shows "(\<Sum>i<a. f i) = f j + (\<Sum>i<a. if i = j then 0 else f i)"
proof -
  have "(\<Sum>i<a. f i) = (\<Sum>i<a. (if i = j then f j else 0) + (if i = j then 0 else f i))"
    by (rule sum.cong) auto
  also have "\<dots> = f j + (\<Sum>i<a. if i = j then 0 else f i)"
    using assms by (simp add: sum.distrib)
  finally show ?thesis .
qed

lemma map2_same: "map2 f (map g xs) (map h xs) = map (\<lambda>x. f (g x) (h x)) xs"
  by (induction xs) simp_all

lemma repair_column_sums:
  fixes w :: "nat \<Rightarrow> nat \<Rightarrow> real" and d :: "nat \<Rightarrow> real"
  assumes a: "0 < a" and nz: "\<And>i. i < a \<Longrightarrow> d i \<noteq> 0"
  shows "sum0 (dot (tab a a (\<lambda>i j. if i = j then d i else 0))
          (fill_diagonal (tab a a (\<lambda>i j. if i = j then 0 else w i j))
             (map2 (\<lambda>x y. (- x) / y)
                (sum0 (T (mul_vec (T (tab a a (\<lambda>i j. if i = j then 0 else w i j)))
                                  (map d [0..<a]))))
                (map d [0..<a]))))
       = replicate a 0"
proof -
  let ?W0 = "tab a a (\<lambda>i j. if i = j then 0 else w i j)"
  let ?S = "\<lambda>j. \<Sum>i<a. (if i = j then 0 else w i j) * d i"
  have 1: "sum0 (T (mul_vec (T ?W0) (map d [0..<a]))) = map ?S [0..<a]"
  proof -
    have "mul_vec (T ?W0) (map d [0..<a]) = tab a a (\<lambda>i j. (if j = i then 0 else w j i) * d j)"
      using a by (simp add: T_tab mul_vec_tab) (rule tab_cong, simp)
    then show ?thesis using a by (simp add: T_tab sum0_tab)
  qed
  have 2: "map2 (\<lambda>x y. (- x) / y) (map ?S [0..<a]) (map d [0..<a]) = map (\<lambda>j. - ?S j / d j) [0..<a]"
    by (rule map2_same)
  have 3: "fill_diagonal ?W0 (map (\<lambda>j. - ?S j / d j) [0..<a])
      = tab a a (\<lambda>i j. if i = j then - ?S j / d j else w i j)"
    by (subst fill_diagonal_tab [OF a], rule tab_cong) (simp cong: if_cong)
  have 4: "(\<Sum>i<a. \<Sum>l<a. (if i = l then d i else 0) * (if l = j then - ?S j / d j else w l j)) = 0"
    if j: "j < a" for j
  proof -
    have "(\<Sum>l<a. (if i = l then d i else 0) * (if l = j then - ?S j / d j else w l j))
        = d i * (if i = j then - ?S j / d j else w i j)" if "i < a" for i
    proof -
      have "(\<Sum>l<a. (if i = l then d i else 0) * (if l = j then - ?S j / d j else w l j))
          = (\<Sum>l<a. if l = i then d i * (if l = j then - ?S j / d j else w l j) else 0)"
        by (rule sum.cong) auto
      also have "\<dots> = d i * (if i = j then - ?S j / d j else w i j)"
        using that by (simp add: sum.delta)
      finally show ?thesis .
    qed
    then have "(\<Sum>i<a. \<Sum>l<a. (if i = l then d i else 0) * (if l = j then - ?S j / d j else w l j))
        = (\<Sum>i<a. d i * (if i = j then - ?S j / d j else w i j))"
      by simp
    also have "\<dots> = d j * (- ?S j / d j) + (\<Sum>i<a. if i = j then 0 else d i * (if i = j then - ?S j / d j else w i j))"
      using sum_split_diag [OF j, of "\<lambda>i. d i * (if i = j then - ?S j / d j else w i j)"] by simp
    also have "(\<Sum>i<a. if i = j then 0 else d i * (if i = j then - ?S j / d j else w i j)) = ?S j"
      by (rule sum.cong) auto
    also have "d j * (- ?S j / d j) + ?S j = 0"
      using nz [OF j] by simp
    finally show ?thesis .
  qed
  have "sum0 (dot (tab a a (\<lambda>i j. if i = j then d i else 0))
                  (tab a a (\<lambda>i j. if i = j then - ?S j / d j else w i j)))
      = map (\<lambda>j. \<Sum>i<a. \<Sum>l<a. (if i = l then d i else 0) * (if l = j then - ?S j / d j else w l j))
          [0..<a]"
    using a by (simp only: dot_tab sum0_tab)
  also have "\<dots> = map (\<lambda>j. 0) [0..<a]"
    by (rule map_cong) (simp_all only: 4 set_upt atLeastLessThan_iff)
  also have "\<dots> = replicate a 0"
    by (simp add: map_replicate_const)
  finally show ?thesis
    unfolding 1 2 3 .
qed


lemma sum_all_diagflat: "sum_all (diagflat dv) = sum_list dv"
proof -
  have "sum_all (diagflat dv) = (\<Sum>i<length dv. \<Sum>j<length dv. if j = i then dv ! i else 0)"
    unfolding diagflat_def sum_all_tab by (intro sum.cong refl) auto
  also have "\<dots> = (\<Sum>i<length dv. dv ! i)"
    by (simp add: sum.delta)
  also have "\<dots> = sum_list dv"
    by (simp add: sum_list_sum_nth atLeast0LessThan)
  finally show ?thesis .
qed

lemma count_lt_zeros: "count_lt (replicate a 0) (1 / 10 ^ 10) = a"
  by (simp add: count_lt_def)

text \<open>A zero divisor in the repair ends in the error of the second check.\<close>

lemma check_fix_Q_zero_sum:
  "count_lt (sum0 (dot (Pi self) (W self))) (1 / 10 ^ 10) < shape0 (alphabet self) \<Longrightarrow>
   sum_all (Pi self) = 0 \<Longrightarrow> check_fix_Q self = Inl ArithmeticError"
  by (simp add: check_fix_Q_def Let_def)

lemma check_fix_Q_zero_frequency:
  "count_lt (sum0 (dot (Pi self) (W self))) (1 / 10 ^ 10) < shape0 (alphabet self) \<Longrightarrow>
   0 \<in> set (diagonal (div_scalar (Pi self) (sum_all (Pi self)))) \<Longrightarrow>
   check_fix_Q self = Inl ArithmeticError"
  by (simp add: check_fix_Q_def Let_def)

text \<open>
  What the repair achieves: for a diagonal \<open>Pi\<close> with non-zero entries and non-zero sum
  that fails the first check, the repaired object is returned and every column of the
  repaired \<open>Pi \<cdot> W\<close> sums to exactly \<open>0\<close>.
\<close>

lemma check_fix_Q_repairs:
  assumes Pd: "Pi self = diagflat dv" and ld: "length dv = length (alphabet self)"
    and Ws: "is_shape (length (alphabet self)) (length (alphabet self)) (W self)"
    and bad: "count_lt (sum0 (dot (Pi self) (W self))) (1 / 10 ^ 10) < length (alphabet self)"
    and s: "sum_list dv \<noteq> 0" and nz: "0 \<notin> set dv"
  shows "\<exists>g. check_fix_Q self = Inr g \<and>
             sum0 (dot (Pi g) (W g)) = replicate (length (alphabet self)) 0"
proof -
  let ?a = "length (alphabet self)"
  let ?s = "sum_list dv"
  let ?d = "\<lambda>i. dv ! i / ?s"
  let ?w = "\<lambda>i j. W self ! i ! j"
  from bad have a: "0 < ?a" by linarith
  have sa: "sum_all (Pi self) = ?s"
    by (simp add: Pd sum_all_diagflat)
  have Pi1: "div_scalar (Pi self) ?s = tab ?a ?a (\<lambda>i j. if i = j then ?d i else 0)"
    unfolding Pd diagflat_def div_scalar_tab ld by (rule tab_cong) simp
  have dg: "diagonal (tab ?a ?a (\<lambda>i j. if i = j then ?d i else 0)) = map ?d [0..<?a]"
    using a by (simp add: diagonal_tab)
  have nz': "?d i \<noteq> 0" if "i < ?a" for i
    using that nz s ld by (auto simp add: in_set_conv_nth)
  then have nzd: "0 \<notin> set (map ?d [0..<?a])"
    by auto
  have W0: "fill_diagonal_scalar (W self) 0 = tab ?a ?a (\<lambda>i j. if i = j then 0 else ?w i j)"
  proof -
    have "fill_diagonal_scalar (tab ?a ?a ?w) 0 = tab ?a ?a (\<lambda>i j. if i = j then 0 else ?w i j)"
      by (rule fill_diagonal_scalar_tab [OF a])
    then show ?thesis using mat_as_tab [OF Ws] by simp
  qed
  have z: "sum0 (dot (tab ?a ?a (\<lambda>i j. if i = j then ?d i else 0))
          (fill_diagonal (tab ?a ?a (\<lambda>i j. if i = j then 0 else ?w i j))
             (map2 (\<lambda>x y. (- x) / y)
                (sum0 (T (mul_vec (T (tab ?a ?a (\<lambda>i j. if i = j then 0 else ?w i j)))
                                  (map ?d [0..<?a]))))
                (map ?d [0..<?a]))))
       = replicate ?a 0"
    by (rule repair_column_sums [OF a nz'])
  show ?thesis
    unfolding check_fix_Q_def Let_def sa Pi1 dg W0
    using bad s nzd by (simp only: z count_lt_zeros shape0_def if_True if_False less_irrefl
        GTR.simps sum.inject simp_thms ex_simps)
       (simp add: z)
qed

text \<open>
  C1. The checks of \<open>check_fix_Q\<close> compare each column sum with the tolerance from above
  only. For the uniform equilibrium and the exchangeability matrix with diagonal \<open>-7\<close>
  every column of \<open>Pi \<cdot> W\<close> sums to \<open>-1\<close>; the first check accepts the object, no repair
  is made and no error is raised.
\<close>

theorem check_fix_Q_accepts_negative_sums:
  "check_fix_Q steep4 = Inr steep4 \<and> sum0 (dot (Pi steep4) (W steep4)) = [-1, -1, -1, -1]"
  by (simp add: check_fix_Q_def steep4_def dot_def sum0_def count_lt_def tab_def shape0_def
      shape1_def upt4 Let_def)

section \<open>Zero elapsed time\<close>

text \<open>
  C2, as stated, fails. For the profile of one site with the distribution
  \<open>(1/2, 1/2, 0, 0)\<close>, a valid profile, and the Jukes-Cantor model over four letters,
  \<open>prob_t\<close> at \<open>t = 0\<close> returns \<open>1/2\<close>: at zero time the value for a site is the inner
  product of the parent row and the child row.
\<close>

theorem prob_same_profile_counterexample:
  "standard nuc4 eig4 inv4 rnd0 ''Jukes-Cantor'' kw0 = Inr jc4 \<and>
   list_all is_distribution [[1/2, 1/2, 0, 0]] \<and>
   prob_t (1 / 10 ^ 12) jc4 [[1/2, 1/2, 0, 0]] [[1/2, 1/2, 0, 0]] 0 False False = (Inr (1/2), jc4)"
proof -
  have "prob_t (1 / 10 ^ 12) jc4 [[1/2, 1/2, 0, 0]] [[1/2, 1/2, 0, 0]] 0 False False
      = (Inr (1/2), jc4)"
    by (simp add: prob_t_def exp_lt_def dot_def T_def tab_def shape0_def shape1_def upt4
        mul_vec_def mul_mat_def sum1_def clamp0_def Let_def)
       (simp add: jc4_def had_def)
  moreover have "list_all is_distribution [[1/2, 1/2, 0, 0]]"
    by (simp add: is_distribution_def)
  ultimately show ?thesis using jc4_constructed by simp
qed

text \<open>
  C2, amended. For every profile whose rows are one-hot and every model over a non-empty
  alphabet in which \<open>v_inv\<close> is the inverse of \<open>v\<close>, \<open>prob_t\<close> of the profile with itself
  at \<open>t = 0\<close> and with default flags returns exactly \<open>1\<close>, in exact arithmetic.
\<close>

theorem prob_same_one_hot:
  assumes "is_shape L (length (alphabet self)) p" and "list_all one_hot p"
    and "eigen_ok self" and "alphabet self \<noteq> []"
  shows "prob_t tiny self p p 0 False False = (Inr 1, self)"
proof (cases "L = 0")
  case True
  with assms(1) have "p = []" by (simp add: is_shape_def)
  then show ?thesis by (simp add: prob_empty)
next
  case False
  let ?a = "length (alphabet self)"
  from assms(3) have vs: "is_shape ?a ?a (v self)" and vi: "is_shape ?a ?a (v_inv self)"
    and e: "length (eigenmat self) = ?a" and inv: "dot (v self) (v_inv self) = eye ?a"
    by (simp_all add: eigen_ok_def)
  from False have L: "0 < L" by simp
  from assms(4) have a: "0 < ?a" by simp
  have s: "sum1 (mul_mat (mul_vec (dot p (v self)) (exp_lt self 0)) (T (dot (v_inv self) (T p))))
       = map (\<lambda>l. \<Sum>k<?a. p ! l ! k * p ! l ! k) [0..<L]"
    by (rule prob_zero_sites [OF assms(1) assms(1) vs vi e a L inv])
  have "(\<Sum>k<?a. p ! l ! k * p ! l ! k) = 1" if "l < L" for l
  proof -
    from assms(1) that have "length (p ! l) = ?a" by (rule is_shape_row)
    moreover from assms(1,2) that have "one_hot (p ! l)"
      by (simp add: is_shape_def list_all_length)
    ultimately show ?thesis using squares_one_hot [of "p ! l"] by simp
  qed
  then have "map (\<lambda>l. \<Sum>k<?a. p ! l ! k * p ! l ! k) [0..<L] = map (\<lambda>l. 1) [0..<L]"
    by simp
  then have s': "sum1 (mul_mat (mul_vec (dot p (v self)) (exp_lt self 0)) (T (dot (v_inv self) (T p))))
       = map (\<lambda>l. 1) [0..<L]"
    using s by simp
  have "prod_list (clamp0 (sum1 (mul_mat (mul_vec (dot p (v self)) (exp_lt self 0)) (T (dot (v_inv self) (T p)))))) = 1"
    unfolding s' by (simp add: clamp0_def comp_def prod_list_ones)
  then show ?thesis by (simp add: prob_t_def Let_def)
qed

text \<open>C2, amended, for two observed sites of the concrete model.\<close>

theorem prob_same_one_hot_witness:
  "is_shape 2 (length (alphabet jc4)) [[1, 0, 0, 0], [0, 0, 1, 0]] \<and>
   list_all one_hot [[1, 0, 0, 0], [0, 0, 1, 0]] \<and> eigen_ok jc4 \<and> alphabet jc4 \<noteq> [] \<and>
   prob_t (1 / 10 ^ 12) jc4 [[1, 0, 0, 0], [0, 0, 1, 0]] [[1, 0, 0, 0], [0, 0, 1, 0]] 0 False False
     = (Inr 1, jc4)"
proof -
  have 1: "is_shape 2 (length (alphabet jc4)) [[1, 0, 0, 0], [0, 0, 1, 0]]"
    by (simp add: is_shape_def jc4_def)
  have 2: "list_all one_hot [[1, 0, 0, 0], [0, 0, 1, 0]]"
    by (simp add: one_hot_def)
  have 3: "alphabet jc4 \<noteq> []"
    by (simp add: jc4_def)
  show ?thesis
    using prob_same_one_hot [OF 1 2 jc4_eigen_ok 3, of "1 / 10 ^ 12"] 1 2 3 jc4_eigen_ok by simp
qed

text \<open>
  C9. For every profile and every model over a non-empty alphabet in which \<open>v_inv\<close> is
  the inverse of \<open>v\<close>, \<open>propagate_profile\<close> at \<open>t = 0\<close> with default flags returns the
  profile itself, in exact arithmetic.
\<close>

theorem propagate_zero_identity:
  assumes "is_shape L (length (alphabet self)) profile"
    and "eigen_ok self" and "alphabet self \<noteq> []"
  shows "propagate_profile self profile 0 False False = (Inr profile, self)"
proof (cases "L = 0")
  case True
  with assms(1) have "profile = []" by (simp add: is_shape_def)
  moreover from assms(2,3) have "0 < length (v self)" "0 < length (v_inv self)"
    by (simp_all add: eigen_ok_def is_shape_def)
  ultimately show ?thesis by (simp add: propagate_profile_def Let_def propagate_empty)
next
  case False
  let ?a = "length (alphabet self)"
  from assms(2) have vs: "is_shape ?a ?a (v self)" and vi: "is_shape ?a ?a (v_inv self)"
    and e: "length (eigenmat self) = ?a" and inv: "dot (v self) (v_inv self) = eye ?a"
    by (simp_all add: eigen_ok_def)
  from False have L: "0 < L" by simp
  from assms(3) have a: "0 < ?a" by simp
  show ?thesis
    by (simp add: propagate_profile_def Let_def propagate_zero_aux [OF assms(1) vs vi e a L inv])
qed

text \<open>C9 for a two-site profile of the concrete model.\<close>

theorem propagate_zero_identity_witness:
  "is_shape 2 (length (alphabet jc4)) [[1/2, 1/2, 0, 0], [0, 0, 1, 0]] \<and>
   eigen_ok jc4 \<and> alphabet jc4 \<noteq> [] \<and>
   propagate_profile jc4 [[1/2, 1/2, 0, 0], [0, 0, 1, 0]] 0 False False
     = (Inr [[1/2, 1/2, 0, 0], [0, 0, 1, 0]], jc4)"
proof -
  have 1: "is_shape 2 (length (alphabet jc4)) [[1/2, 1/2, 0, 0], [0, 0, 1, 0]]"
    by (simp add: is_shape_def jc4_def)
  have 3: "alphabet jc4 \<noteq> []"
    by (simp add: jc4_def)
  show ?thesis
    using propagate_zero_identity [OF 1 jc4_eigen_ok 3] 1 3 jc4_eigen_ok by simp
qed

end
